theory Spec2Isabelle
  imports Main "HOL-Library.Word"
begin

section \<open>JavaScript strings and values\<close>

text \<open>
  A JavaScript string is a sequence of UTF-16 code units. The literals of
  \<^verbatim>\<open>App.js\<close> are ASCII apart from one em dash (U+2014) in an alert text, so
  an ASCII literal is written through \<open>str\<close> and the dash as its code unit.
\<close>

type_synonym jschar = "16 word"
type_synonym jsstring = "jschar list"

definition str :: "string \<Rightarrow> jsstring" where
  "str cs = map of_char cs"

text \<open>
  \<^verbatim>\<open>String.prototype.trim\<close> removes, at both ends, the code units that ECMAScript
  calls WhiteSpace (TAB, VT, FF, U+FEFF and the Unicode space separators) or
  LineTerminator (LF, CR, U+2028, U+2029).
\<close>

definition is_js_space :: "jschar \<Rightarrow> bool" where
  "is_js_space c =
     (c = 0x0009 \<or> c = 0x000A \<or> c = 0x000B \<or> c = 0x000C \<or> c = 0x000D \<or>
      c = 0x0020 \<or> c = 0x00A0 \<or> c = 0x1680 \<or>
      (0x2000 \<le> c \<and> c \<le> 0x200A) \<or>
      c = 0x2028 \<or> c = 0x2029 \<or> c = 0x202F \<or> c = 0x205F \<or>
      c = 0x3000 \<or> c = 0xFEFF)"

definition js_trim :: "jsstring \<Rightarrow> jsstring" where
  "js_trim s = rev (dropWhile is_js_space (rev (dropWhile is_js_space s)))"

text \<open>
  A property read from the parsed response body is a string or, when the
  property is absent, \<^verbatim>\<open>undefined\<close>. (The endpoint's contract types all three
  properties as strings.) An empty string and \<^verbatim>\<open>undefined\<close> are the falsy
  values; \<open>a || b\<close> is \<open>a\<close> when \<open>a\<close> is truthy and \<open>b\<close> otherwise; a template
  literal renders \<^verbatim>\<open>undefined\<close> as the nine letters of that word.
\<close>

datatype jsval = Undefined | Str jsstring

fun truthy :: "jsval \<Rightarrow> bool" where
  "truthy Undefined = False"
| "truthy (Str s) = (s \<noteq> [])"

definition js_or :: "jsval \<Rightarrow> jsval \<Rightarrow> jsval" where
  "js_or a b = (if truthy a then a else b)"

fun to_string :: "jsval \<Rightarrow> jsstring" where
  "to_string Undefined = str ''undefined''"
| "to_string (Str s) = s"

section \<open>The component's state\<close>

text \<open>
  \<^verbatim>\<open>const BACKEND = "http://127.0.0.1:8000";\<close>
\<close>

definition BACKEND :: jsstring where
  "BACKEND = str ''http://127.0.0.1:8000''"

text \<open>
  A \<^verbatim>\<open>SpeechRecognition\<close> object as \<^verbatim>\<open>startListening\<close> configures it. Its
  \<^verbatim>\<open>onresult\<close> handler is an arrow function created inside \<^verbatim>\<open>startListening\<close>;
  the \<^verbatim>\<open>transcript\<close> it reads is the \<^verbatim>\<open>const\<close> of the render of \<^verbatim>\<open>App\<close> in
  which \<^verbatim>\<open>startListening\<close> was invoked. Later renders declare a new \<^verbatim>\<open>transcript\<close>
  in a new scope; the handler stays attached to the object and keeps reading
  the one it closed over. That value is the field \<open>base\<close>. The field \<open>active\<close>
  records that \<^verbatim>\<open>start()\<close> has been called on the object and that neither
  \<^verbatim>\<open>stop()\<close> nor its end event has happened since.
\<close>

record recognition =
  lang :: jsstring
  interimResults :: bool
  continuous :: bool
  base :: jsstring
  active :: bool

record language =
  code :: jsstring
  name :: jsstring

text \<open>
  The seven \<^verbatim>\<open>useState\<close> cells, the \<^verbatim>\<open>useRef\<close> cell (\<open>None\<close> is \<^verbatim>\<open>null\<close>,
  \<open>Some i\<close> refers to the \<open>i\<close>-th object created), and the recognition objects
  created so far, in creation order.
\<close>

record app =
  listening :: bool
  transcript :: jsstring
  translated :: jsval
  audioUrl :: jsstring
  languages :: "language list"
  targetLang :: jsstring
  loading :: bool
  recognitionRef :: "nat option"
  recognitions :: "recognition list"

definition init :: app where
  "init = \<lparr> listening = False, transcript = [], translated = Str [], audioUrl = [],
            languages = [], targetLang = str ''fr'', loading = False,
            recognitionRef = None, recognitions = [] \<rparr>"

section \<open>Effects\<close>

record request =
  url :: jsstring
  http_method :: jsstring
  content_type :: jsstring
  body_text :: jsstring
  body_target_lang :: jsstring
  body_source_lang :: jsstring

datatype effect = Alert jsstring | Fetch request

fun is_fetch :: "effect \<Rightarrow> bool" where
  "is_fetch (Fetch r) = True"
| "is_fetch (Alert m) = False"

definition msg_no_speech_support :: jsstring where
  "msg_no_speech_support =
     str ''Your browser doesn't support microphone speech recognition. Please use Chrome.''"

definition msg_speak_first :: jsstring where
  "msg_speak_first =
     str ''Please speak first '' @ [0x2014] @ str '' no text to translate.''"

definition msg_translation_failed :: jsstring where
  "msg_translation_failed = str ''Translation failed.''"

definition msg_server_error :: jsstring where
  "msg_server_error = str ''Server error. Is the backend running?''"

section \<open>Translation\<close>

text \<open>
  \<^verbatim>\<open>handleTranslate\<close> up to its first \<^verbatim>\<open>await\<close>: the guard on the trimmed
  transcript, the three setters, and the call of \<^verbatim>\<open>fetch\<close>.
\<close>

definition handleTranslate :: "app \<Rightarrow> effect list \<times> app" where
  "handleTranslate s =
     (if js_trim (transcript s) = [] then ([Alert msg_speak_first], s)
      else
        ([Fetch \<lparr> url = BACKEND @ str ''/translate_tts'', http_method = str ''POST'',
                  content_type = str ''application/json'',
                  body_text = transcript s, body_target_lang = targetLang s,
                  body_source_lang = str ''auto'' \<rparr>],
         s\<lparr> loading := True, translated := Str [], audioUrl := [] \<rparr>))"

text \<open>
  What the awaited \<^verbatim>\<open>fetch\<close> and \<^verbatim>\<open>res.json()\<close> can deliver: the \<^verbatim>\<open>fetch\<close>
  promise rejects (transport error), or it resolves to a response with its
  \<^verbatim>\<open>ok\<close> flag, whose body does not parse as JSON (\<^verbatim>\<open>res.json()\<close> rejects),
  parses to \<^verbatim>\<open>null\<close> (reading a property of it throws), or parses to a value
  \<^verbatim>\<open>data\<close> whose three properties are read.
\<close>

record data =
  error :: jsval
  translated_text :: jsval
  audio_url :: jsval

datatype parsed = NotJson | JsonNull | Json data

datatype fetch_outcome = Rejected | Response bool parsed

text \<open>
  \<^verbatim>\<open>handleTranslate\<close> after the \<^verbatim>\<open>await\<close>: the \<^verbatim>\<open>try\<close> body from line 83, the
  \<^verbatim>\<open>catch\<close> and the \<^verbatim>\<open>finally\<close>. It reads no state cell; the setters write
  into whatever the state is when the continuation runs.
\<close>

fun handleTranslate_resume :: "fetch_outcome \<Rightarrow> app \<Rightarrow> effect list \<times> app" where
  "handleTranslate_resume (Response ok (Json d)) s =
     (if \<not> ok then
        ([Alert (to_string (js_or (error d) (Str msg_translation_failed)))],
         s\<lparr> loading := False \<rparr>)
      else
        ([], s\<lparr> translated := translated_text d,
                audioUrl := BACKEND @ to_string (audio_url d),
                loading := False \<rparr>))"
| "handleTranslate_resume (Response ok JsonNull) s =
     ([Alert msg_server_error], s\<lparr> loading := False \<rparr>)"
| "handleTranslate_resume (Response ok NotJson) s =
     ([Alert msg_server_error], s\<lparr> loading := False \<rparr>)"
| "handleTranslate_resume Rejected s =
     ([Alert msg_server_error], s\<lparr> loading := False \<rparr>)"

section \<open>Capture\<close>

text \<open>
  \<^verbatim>\<open>startListening\<close>. The argument \<open>sr\<close> says whether
  \<^verbatim>\<open>window.SpeechRecognition || window.webkitSpeechRecognition\<close> is truthy.
  There is no test of \<^verbatim>\<open>listening\<close> or of \<^verbatim>\<open>recognitionRef.current\<close>.
\<close>

definition startListening :: "bool \<Rightarrow> app \<Rightarrow> effect list \<times> app" where
  "startListening sr s =
     (if \<not> sr then ([Alert msg_no_speech_support], s)
      else
        ([], s\<lparr> recognitions := recognitions s @
                  [\<lparr> lang = str ''en-US'', interimResults = True, continuous = True,
                     base = transcript s, active = True \<rparr>],
                recognitionRef := Some (length (recognitions s)),
                listening := True \<rparr>))"

definition stop_recognition :: "nat \<Rightarrow> recognition list \<Rightarrow> recognition list" where
  "stop_recognition i rs = (if i < length rs then rs[i := (rs ! i)\<lparr> active := False \<rparr>] else rs)"

definition stopListening :: "app \<Rightarrow> app" where
  "stopListening s =
     (case recognitionRef s of
        Some i \<Rightarrow> s\<lparr> recognitions := stop_recognition i (recognitions s),
                     recognitionRef := None, listening := False \<rparr>
      | None \<Rightarrow> s\<lparr> listening := False \<rparr>)"

text \<open>
  One entry of \<^verbatim>\<open>event.results\<close>: its \<^verbatim>\<open>isFinal\<close> flag and the text of its first
  alternative, \<^verbatim>\<open>res[0].transcript\<close>.
\<close>

record result =
  isFinal :: bool
  alt0 :: jsstring

record event =
  resultIndex :: nat
  results :: "result list"

text \<open>
  The \<^verbatim>\<open>for\<close> loop of \<^verbatim>\<open>onresult\<close>, from index \<open>i\<close>, with the two local
  variables as accumulators.
\<close>

function onresult_loop :: "result list \<Rightarrow> nat \<Rightarrow> jsstring \<Rightarrow> jsstring \<Rightarrow> jsstring \<times> jsstring" where
  "onresult_loop rs i finalText interim =
     (if i < length rs then
        (if isFinal (rs ! i)
         then onresult_loop rs (Suc i) (finalText @ alt0 (rs ! i) @ str '' '') interim
         else onresult_loop rs (Suc i) finalText (interim @ alt0 (rs ! i)))
      else (finalText, interim))"
  by pat_completeness auto
termination
  by (relation "measure (\<lambda>(rs, i, finalText, interim). length rs - i)") auto

declare onresult_loop.simps [simp del]

text \<open>
  The handler itself. \<open>captured\<close> is the \<^verbatim>\<open>transcript\<close> the arrow function
  closed over (the \<open>base\<close> of its recognition object), not the current cell:
  \<^verbatim>\<open>let finalText = transcript\<close> reads a \<^verbatim>\<open>const\<close> of the call of \<^verbatim>\<open>App\<close> that
  created the handler, and \<^verbatim>\<open>setTranscript\<close> does not assign to it. The handler
  writes the transcript cell and reads no cell.
\<close>

definition onresult :: "jsstring \<Rightarrow> event \<Rightarrow> app \<Rightarrow> app" where
  "onresult captured ev s =
     (case onresult_loop (results ev) (resultIndex ev) captured [] of
        (finalText, interim) \<Rightarrow> s\<lparr> transcript := finalText @ interim \<rparr>)"

text \<open>
  What one batch contributes: the texts of its final entries, each followed
  by a space, and the texts of its other entries.
\<close>

definition finals :: "result list \<Rightarrow> jsstring" where
  "finals rs = concat (map (\<lambda>r. alt0 r @ str '' '') (filter isFinal rs))"

definition interims :: "result list \<Rightarrow> jsstring" where
  "interims rs = concat (map alt0 (filter (\<lambda>r. \<not> isFinal r) rs))"

definition onerror :: "app \<Rightarrow> app" where
  "onerror s = stopListening s"

definition onend :: "app \<Rightarrow> app" where
  "onend s = s\<lparr> listening := False \<rparr>"

text \<open>
  An event of the \<open>i\<close>-th recognition object runs the handler registered on
  that object. The end event also means that the object has stopped.
\<close>

datatype sr_event = OnResult event | OnError | OnEnd

fun deliver :: "nat \<Rightarrow> sr_event \<Rightarrow> app \<Rightarrow> app" where
  "deliver i (OnResult ev) s =
     (if i < length (recognitions s) then onresult (base (recognitions s ! i)) ev s else s)"
| "deliver i OnError s =
     (if i < length (recognitions s) then onerror s else s)"
| "deliver i OnEnd s =
     (if i < length (recognitions s)
      then onend (s\<lparr> recognitions := stop_recognition i (recognitions s) \<rparr>) else s)"

fun deliver_all :: "nat \<Rightarrow> sr_event list \<Rightarrow> app \<Rightarrow> app" where
  "deliver_all i [] s = s"
| "deliver_all i (e # es) s = deliver_all i es (deliver i e s)"

definition live :: "app \<Rightarrow> recognition list" where
  "live s = filter active (recognitions s)"

section \<open>Clear\<close>

definition clearAll :: "app \<Rightarrow> app" where
  "clearAll s = s\<lparr> transcript := [], translated := Str [], audioUrl := [] \<rparr>"

section \<open>The rendered controls\<close>

text \<open>
  The three buttons of the returned JSX. The first is Start (bound to
  \<^verbatim>\<open>startListening\<close>) when \<^verbatim>\<open>listening\<close> is false and Stop (bound to
  \<^verbatim>\<open>stopListening\<close>) otherwise; the Translate button carries
  \<^verbatim>\<open>disabled={loading}\<close>, and a disabled button dispatches no click.
\<close>

datatype control = CaptureButton | TranslateButton | ClearButton

fun click :: "bool \<Rightarrow> control \<Rightarrow> app \<Rightarrow> effect list \<times> app" where
  "click sr CaptureButton s =
     (if \<not> listening s then startListening sr s else ([], stopListening s))"
| "click sr TranslateButton s = (if loading s then ([], s) else handleTranslate s)"
| "click sr ClearButton s = ([], clearAll s)"

section \<open>Properties\<close>

subsection \<open>The result handler in closed form\<close>

lemma onresult_loop_eq:
  "onresult_loop rs i finalText interim =
     (finalText @ finals (drop i rs), interim @ interims (drop i rs))"
proof (induction rs i finalText interim rule: onresult_loop.induct)
  case (1 rs i finalText interim)
  show ?case
  proof (cases "i < length rs")
    case False
    then show ?thesis
      by (simp add: onresult_loop.simps [of rs i] finals_def interims_def)
  next
    case True
    then have d: "drop i rs = rs ! i # drop (Suc i) rs"
      by (simp add: Cons_nth_drop_Suc)
    show ?thesis
    proof (cases "isFinal (rs ! i)")
      case True
      with \<open>i < length rs\<close> 1(1) d show ?thesis
        by (simp add: onresult_loop.simps [of rs i] finals_def interims_def)
    next
      case False
      with \<open>i < length rs\<close> 1(2) d show ?thesis
        by (simp add: onresult_loop.simps [of rs i] finals_def interims_def)
    qed
  qed
qed

lemma onresult_eq:
  "onresult captured ev s =
     s\<lparr> transcript := captured @ finals (drop (resultIndex ev) (results ev))
                         @ interims (drop (resultIndex ev) (results ev)) \<rparr>"
  by (simp add: onresult_def onresult_loop_eq)

subsection \<open>Claims\<close>

text \<open>
  C10. Clear empties the transcript, the translated text and the audio
  reference, and every other field of the state (listening flag, capture
  handle, recognition objects, target language, language catalog, loading
  flag) keeps the value it had.
\<close>

theorem clearAll_frame:
  "clearAll s =
     \<lparr> listening = listening s, transcript = [], translated = Str [], audioUrl = [],
       languages = languages s, targetLang = targetLang s, loading = loading s,
       recognitionRef = recognitionRef s, recognitions = recognitions s \<rparr>"
  by (simp add: clearAll_def)

text \<open>
  C9. Delivering the same batch with the same start index twice in
  succession leaves the state that delivering it once leaves, so nothing is
  duplicated; and the entries before the start index are not read: a batch
  with any entries \<open>pre\<close> in front and the start index behind them is handled
  as the remaining entries from index 0.
\<close>

theorem onresult_replay:
  "deliver i (OnResult ev) (deliver i (OnResult ev) s) = deliver i (OnResult ev) s
   \<and> onresult c \<lparr> resultIndex = length pre, results = pre @ rs \<rparr> s
       = onresult c \<lparr> resultIndex = 0, results = rs \<rparr> s"
  by (simp add: onresult_eq)

theorem onresult_replay_witness:
  "transcript
     (deliver 0 (OnResult \<lparr> resultIndex = 0, results = [\<lparr> isFinal = True, alt0 = str ''hello world'' \<rparr>] \<rparr>)
       (deliver 0 (OnResult \<lparr> resultIndex = 0, results = [\<lparr> isFinal = True, alt0 = str ''hello world'' \<rparr>] \<rparr>)
         (snd (startListening True init))))
     = str ''hello world ''"
  using onresult_replay [of 0
      "\<lparr> resultIndex = 0, results = [\<lparr> isFinal = True, alt0 = str ''hello world'' \<rparr>] \<rparr>"
      "snd (startListening True init)"]
  by (simp add: onresult_eq startListening_def init_def finals_def interims_def str_def)

text \<open>
  C5. When the trimmed transcript is empty, whatever the target language,
  \<^verbatim>\<open>handleTranslate\<close> alerts that there is nothing to translate, calls
  \<^verbatim>\<open>fetch\<close> not at all, and returns the state as it was.
\<close>

theorem handleTranslate_empty:
  "js_trim (transcript s) = [] \<Longrightarrow>
     handleTranslate s = ([Alert msg_speak_first], s)
     \<and> filter is_fetch (fst (handleTranslate s)) = []"
  by (simp add: handleTranslate_def)

theorem handleTranslate_empty_witness:
  "js_trim (transcript (init\<lparr> transcript := str ''   '' \<rparr>)) = []
   \<and> targetLang (init\<lparr> transcript := str ''   '' \<rparr>) = str ''fr''
   \<and> handleTranslate (init\<lparr> transcript := str ''   '' \<rparr>)
       = ([Alert msg_speak_first], init\<lparr> transcript := str ''   '' \<rparr>)"
  using handleTranslate_empty [of "init\<lparr> transcript := str ''   '' \<rparr>"]
  by (simp add: js_trim_def str_def is_js_space_def init_def)

text \<open>
  C7. A response with \<^verbatim>\<open>ok\<close> set whose body carries \<^verbatim>\<open>translated_text\<close> \<open>t\<close>
  and \<^verbatim>\<open>audio_url\<close> \<open>u\<close> ends the request without an alert, with the translated
  text \<open>t\<close>, the audio reference \<open>BACKEND\<close> followed by \<open>u\<close>, and the loading
  flag down.
\<close>

theorem translate_success:
  "handleTranslate_resume
       (Response True (Json \<lparr> error = e, translated_text = Str t, audio_url = Str u \<rparr>)) s
     = ([], s\<lparr> translated := Str t, audioUrl := BACKEND @ u, loading := False \<rparr>)"
  by simp

theorem translate_success_witness:
  "fst (handleTranslate (init\<lparr> transcript := str ''hello world'' \<rparr>))
     = [Fetch \<lparr> url = str ''http://127.0.0.1:8000/translate_tts'', http_method = str ''POST'',
                content_type = str ''application/json'',
                body_text = str ''hello world'', body_target_lang = str ''fr'',
                body_source_lang = str ''auto'' \<rparr>]
   \<and> handleTranslate_resume
        (Response True (Json \<lparr> error = Undefined, translated_text = Str (str ''bonjour le monde''),
                               audio_url = Str (str ''/audio/1.mp3'') \<rparr>))
        (snd (handleTranslate (init\<lparr> transcript := str ''hello world'' \<rparr>)))
     = ([], init\<lparr> transcript := str ''hello world'',
                   translated := Str (str ''bonjour le monde''),
                   audioUrl := str ''http://127.0.0.1:8000/audio/1.mp3'' \<rparr>)"
  using translate_success [of Undefined "str ''bonjour le monde''" "str ''/audio/1.mp3''"
      "snd (handleTranslate (init\<lparr> transcript := str ''hello world'' \<rparr>))"]
  by (simp add: handleTranslate_def init_def BACKEND_def js_trim_def str_def is_js_space_def)

text \<open>
  C8, as amended. After a submit with a non-blank transcript, every failing
  outcome lowers the loading flag, raises one alert, and leaves the
  translated text and the audio reference empty, as the submit made them.
  The alert is the body's \<^verbatim>\<open>error\<close> when the status is not ok and that
  property is a non-empty string; it is \<open>msg_translation_failed\<close> when the
  status is not ok and \<^verbatim>\<open>error\<close> is absent or empty; it is
  \<open>msg_server_error\<close> when the body is \<^verbatim>\<open>null\<close> or not JSON, or \<^verbatim>\<open>fetch\<close>
  rejects.
\<close>

theorem translate_failure:
  "js_trim (transcript s) \<noteq> [] \<Longrightarrow> m \<noteq> [] \<Longrightarrow>
     handleTranslate_resume
         (Response False (Json \<lparr> error = Str m, translated_text = tt, audio_url = au \<rparr>))
         (snd (handleTranslate s))
       = ([Alert m], s\<lparr> translated := Str [], audioUrl := [], loading := False \<rparr>)
     \<and> handleTranslate_resume
         (Response False (Json \<lparr> error = Str [], translated_text = tt, audio_url = au \<rparr>))
         (snd (handleTranslate s))
       = ([Alert msg_translation_failed], s\<lparr> translated := Str [], audioUrl := [], loading := False \<rparr>)
     \<and> handleTranslate_resume
         (Response False (Json \<lparr> error = Undefined, translated_text = tt, audio_url = au \<rparr>))
         (snd (handleTranslate s))
       = ([Alert msg_translation_failed], s\<lparr> translated := Str [], audioUrl := [], loading := False \<rparr>)
     \<and> handleTranslate_resume (Response ok JsonNull) (snd (handleTranslate s))
       = ([Alert msg_server_error], s\<lparr> translated := Str [], audioUrl := [], loading := False \<rparr>)
     \<and> handleTranslate_resume (Response ok NotJson) (snd (handleTranslate s))
       = ([Alert msg_server_error], s\<lparr> translated := Str [], audioUrl := [], loading := False \<rparr>)
     \<and> handleTranslate_resume Rejected (snd (handleTranslate s))
       = ([Alert msg_server_error], s\<lparr> translated := Str [], audioUrl := [], loading := False \<rparr>)"
  by (simp add: handleTranslate_def js_or_def)

theorem translate_failure_witness:
  "js_trim (transcript (init\<lparr> transcript := str ''hello'', translated := Str (str ''salut''),
                                     audioUrl := str ''http://127.0.0.1:8000/audio/0.mp3'' \<rparr>)) \<noteq> []
   \<and> str ''tts failed'' \<noteq> []
   \<and> handleTranslate_resume
         (Response False (Json \<lparr> error = Str (str ''tts failed''), translated_text = Undefined,
                                audio_url = Undefined \<rparr>))
         (snd (handleTranslate (init\<lparr> transcript := str ''hello'', translated := Str (str ''salut''),
                                     audioUrl := str ''http://127.0.0.1:8000/audio/0.mp3'' \<rparr>)))
       = ([Alert (str ''tts failed'')], init\<lparr> transcript := str ''hello'' \<rparr>)"
  using translate_failure [of "init\<lparr> transcript := str ''hello'', translated := Str (str ''salut''),
                                     audioUrl := str ''http://127.0.0.1:8000/audio/0.mp3'' \<rparr>"
       "str ''tts failed''" Undefined Undefined]
  by (simp add: init_def js_trim_def str_def is_js_space_def)

text \<open>
  C8 as stated fails where the \<^verbatim>\<open>error\<close> property is present and empty: a
  response with status 500 and body \<^verbatim>\<open>{"error": ""}\<close> is reported with the
  generic text, since \<^verbatim>\<open>data.error || "Translation failed."\<close> takes the
  right operand for the empty string.
\<close>

theorem empty_error_field:
  "fst (handleTranslate_resume
         (Response False (Json \<lparr> error = Str [], translated_text = Undefined, audio_url = Undefined \<rparr>))
         (snd (handleTranslate (init\<lparr> transcript := str ''hello'' \<rparr>))))
     = [Alert (str ''Translation failed.'')]
   \<and> str ''Translation failed.'' \<noteq> []"
  by (simp add: js_or_def msg_translation_failed_def str_def)

text \<open>
  C2, as amended. While the loading flag is up the Translate button is
  disabled: a click on it issues no request and changes nothing. The
  function \<^verbatim>\<open>handleTranslate\<close> does not look at the flag: called in such a
  state with a non-blank transcript it issues a request like any other call.
\<close>

theorem translate_gated_by_control:
  "loading s \<Longrightarrow>
     click sr TranslateButton s = ([], s)
     \<and> (js_trim (transcript s) \<noteq> [] \<longrightarrow>
          handleTranslate s =
            ([Fetch \<lparr> url = BACKEND @ str ''/translate_tts'', http_method = str ''POST'',
                      content_type = str ''application/json'',
                      body_text = transcript s, body_target_lang = targetLang s,
                      body_source_lang = str ''auto'' \<rparr>],
             s\<lparr> loading := True, translated := Str [], audioUrl := [] \<rparr>))"
  by (simp add: handleTranslate_def)

theorem translate_gated_by_control_witness:
  "loading (snd (handleTranslate (init\<lparr> transcript := str ''hello'' \<rparr>)))
   \<and> js_trim (transcript (snd (handleTranslate (init\<lparr> transcript := str ''hello'' \<rparr>)))) \<noteq> []
   \<and> click True TranslateButton (snd (handleTranslate (init\<lparr> transcript := str ''hello'' \<rparr>)))
       = ([], snd (handleTranslate (init\<lparr> transcript := str ''hello'' \<rparr>)))
   \<and> length (fst (handleTranslate (snd (handleTranslate (init\<lparr> transcript := str ''hello'' \<rparr>))))) = 1"
  using translate_gated_by_control [of "snd (handleTranslate (init\<lparr> transcript := str ''hello'' \<rparr>))" True]
  by (simp add: handleTranslate_def init_def js_trim_def str_def is_js_space_def)

text \<open>
  C2 as stated fails: \<^verbatim>\<open>handleTranslate\<close> called a second time while the first
  request is pending is not rejected, and two requests have been issued.
\<close>

theorem second_call_fetches_again:
  "loading (snd (handleTranslate (init\<lparr> transcript := str ''hello'' \<rparr>)))
   \<and> length (filter is_fetch
        (fst (handleTranslate (init\<lparr> transcript := str ''hello'' \<rparr>))
         @ fst (handleTranslate (snd (handleTranslate (init\<lparr> transcript := str ''hello'' \<rparr>)))))) = 2"
  by (simp add: handleTranslate_def init_def js_trim_def str_def is_js_space_def)

text \<open>
  C3, as amended. Requests carry no generation id and a completion is applied
  whenever it arrives. A successful response that arrives after Clear, or
  after a later \<^verbatim>\<open>handleTranslate\<close>, sets the translated text and the audio
  reference from its body and lowers the loading flag. What no completion
  touches, whatever its outcome, is the transcript, the listening flag, the
  capture handle, the recognition objects, the target language and the
  catalog; and every completion leaves the loading flag down.
\<close>

theorem completion_unguarded:
  "snd (handleTranslate_resume
          (Response True (Json \<lparr> error = e, translated_text = Str t, audio_url = Str u \<rparr>))
          (clearAll s))
     = (clearAll s)\<lparr> translated := Str t, audioUrl := BACKEND @ u, loading := False \<rparr>
   \<and> snd (handleTranslate_resume
          (Response True (Json \<lparr> error = e, translated_text = Str t, audio_url = Str u \<rparr>))
          (snd (handleTranslate s)))
     = (snd (handleTranslate s))\<lparr> translated := Str t, audioUrl := BACKEND @ u, loading := False \<rparr>
   \<and> transcript (snd (handleTranslate_resume out s)) = transcript s
   \<and> listening (snd (handleTranslate_resume out s)) = listening s
   \<and> recognitionRef (snd (handleTranslate_resume out s)) = recognitionRef s
   \<and> recognitions (snd (handleTranslate_resume out s)) = recognitions s
   \<and> targetLang (snd (handleTranslate_resume out s)) = targetLang s
   \<and> languages (snd (handleTranslate_resume out s)) = languages s
   \<and> loading (snd (handleTranslate_resume out s)) = False"
  by (cases "(out, s)" rule: handleTranslate_resume.cases) auto

text \<open>
  C3 as stated fails: submit, then Clear, then the response of the submitted
  request. Clear had emptied the translated text and the audio reference;
  the late response fills both.
\<close>

theorem stale_response_after_clear:
  "translated (clearAll (snd (handleTranslate (init\<lparr> transcript := str ''hello'' \<rparr>)))) = Str []
   \<and> audioUrl (clearAll (snd (handleTranslate (init\<lparr> transcript := str ''hello'' \<rparr>)))) = []
   \<and> translated (snd (handleTranslate_resume
        (Response True (Json \<lparr> error = Undefined, translated_text = Str (str ''bonjour''),
                               audio_url = Str (str ''/audio/1.mp3'') \<rparr>))
        (clearAll (snd (handleTranslate (init\<lparr> transcript := str ''hello'' \<rparr>))))))
      = Str (str ''bonjour'')
   \<and> audioUrl (snd (handleTranslate_resume
        (Response True (Json \<lparr> error = Undefined, translated_text = Str (str ''bonjour''),
                               audio_url = Str (str ''/audio/1.mp3'') \<rparr>))
        (clearAll (snd (handleTranslate (init\<lparr> transcript := str ''hello'' \<rparr>))))))
      = str ''http://127.0.0.1:8000/audio/1.mp3''"
  by (simp add: handleTranslate_def clearAll_def init_def BACKEND_def js_trim_def str_def
      is_js_space_def)

text \<open>
  C4, as amended. While the listening flag is up the capture button is the
  Stop button: a click on it runs \<^verbatim>\<open>stopListening\<close>, so the rendered controls
  give no way to run \<^verbatim>\<open>startListening\<close>. The function \<^verbatim>\<open>startListening\<close>
  does not look at the flag: called in such a state, with the capability
  present, it raises no alert, creates and starts one more recognition
  object and stores it in the handle, so that one more object is live than
  before.
\<close>

theorem start_gated_by_control:
  "listening s \<Longrightarrow>
     click sr CaptureButton s = ([], stopListening s)
     \<and> startListening True s =
         ([], s\<lparr> recognitions := recognitions s @
                   [\<lparr> lang = str ''en-US'', interimResults = True, continuous = True,
                      base = transcript s, active = True \<rparr>],
                 recognitionRef := Some (length (recognitions s)),
                 listening := True \<rparr>)
     \<and> length (live (snd (startListening True s))) = Suc (length (live s))"
  by (simp add: startListening_def live_def)

theorem start_gated_by_control_witness:
  "listening (snd (startListening True init))
   \<and> click True CaptureButton (snd (startListening True init))
       = ([], stopListening (snd (startListening True init)))
   \<and> length (live (snd (startListening True init))) = 1
   \<and> length (live (snd (startListening True (snd (startListening True init))))) = 2"
  using start_gated_by_control [of "snd (startListening True init)" True]
  by (simp add: startListening_def init_def live_def)

text \<open>
  C4 as stated fails: \<^verbatim>\<open>startListening\<close> called twice in a row is not
  rejected the second time, and two recognition objects are live.
\<close>

theorem start_twice:
  "listening (snd (startListening True init))
   \<and> fst (startListening True (snd (startListening True init))) = []
   \<and> length (live (snd (startListening True (snd (startListening True init))))) = 2"
  by (simp add: startListening_def init_def live_def)

text \<open>
  C6, at the failing input: a session is started and its recognition object
  fires its end event. The listening flag goes down and the handle still
  holds the object; the error event in the same state clears the handle.
\<close>

theorem onend_keeps_handle:
  "listening (deliver 0 OnEnd (snd (startListening True init))) = False
   \<and> recognitionRef (deliver 0 OnEnd (snd (startListening True init))) = Some 0
   \<and> recognitionRef (deliver 0 OnError (snd (startListening True init))) = None"
  by (simp add: startListening_def init_def onend_def onerror_def stopListening_def)

text \<open>
  C1, at the failing input: a session started on an empty transcript receives
  a batch with start index 0 holding a final "a" and an interim "b", then a
  batch with start index 1 holding the final "a" and a final "bc". After the
  first batch the transcript is "a b"; after the second it is "bc ": the
  final text "a " of the first batch is gone.
\<close>

theorem onresult_loses_earlier_final:
  "transcript (deliver 0 (OnResult \<lparr> resultIndex = 0, results =
        [\<lparr> isFinal = True, alt0 = str ''a'' \<rparr>, \<lparr> isFinal = False, alt0 = str ''b'' \<rparr>] \<rparr>)
      (snd (startListening True init))) = str ''a b''
   \<and> transcript (deliver 0 (OnResult \<lparr> resultIndex = 1, results =
        [\<lparr> isFinal = True, alt0 = str ''a'' \<rparr>, \<lparr> isFinal = True, alt0 = str ''bc'' \<rparr>] \<rparr>)
      (deliver 0 (OnResult \<lparr> resultIndex = 0, results =
        [\<lparr> isFinal = True, alt0 = str ''a'' \<rparr>, \<lparr> isFinal = False, alt0 = str ''b'' \<rparr>] \<rparr>)
      (snd (startListening True init)))) = str ''bc ''"
  by (simp add: onresult_eq startListening_def init_def finals_def interims_def str_def)

subsection \<open>Further facts about capture\<close>

text \<open>
  The scenario of an interim "hel" followed by a final "hello world", both
  with start index 0, in a session started on an empty transcript.
\<close>

lemma scenario_interim_then_final:
  "transcript (deliver_all 0
      [OnResult \<lparr> resultIndex = 0, results = [\<lparr> isFinal = False, alt0 = str ''hel'' \<rparr>] \<rparr>,
       OnResult \<lparr> resultIndex = 0, results = [\<lparr> isFinal = True, alt0 = str ''hello world'' \<rparr>] \<rparr>]
      (snd (startListening True init))) = str ''hello world ''"
  by (simp add: onresult_eq startListening_def init_def finals_def interims_def str_def)

text \<open>
  The error handler always leaves the flag down and the handle empty;
  \<^verbatim>\<open>stopListening\<close> is idempotent, and after it neither handler changes a
  state cell or the handle.
\<close>

lemma onerror_releases: "\<not> listening (onerror s) \<and> recognitionRef (onerror s) = None"
  by (simp add: onerror_def stopListening_def split: option.splits)

lemma stopListening_idem: "stopListening (stopListening s) = stopListening s"
  by (simp add: stopListening_def split: option.splits)

lemma callbacks_after_stop:
  "onerror (stopListening s) = stopListening s \<and> onend (stopListening s) = stopListening s"
  by (simp add: onerror_def onend_def stopListening_def split: option.splits)

lemma stopListening_idle: "recognitionRef s = None \<Longrightarrow> \<not> listening s \<Longrightarrow> stopListening s = s"
  by (simp add: stopListening_def)

end
